theory Spec2Isabelle
  imports Main "HOL-Library.AList"
begin

section \<open>Python values, dictionaries and the runtime\<close>

text \<open>
  The bookkeeping program keeps every transaction as a Python \<^verbatim>\<open>dict\<close>. A dictionary is
  modelled as an association list in insertion order with distinct keys; a key is a
  string or Python's \<^verbatim>\<open>None\<close> (the key under which \<^verbatim>\<open>csv.DictReader\<close> stores the surplus
  cells of a long row). A value is a string, a float, \<^verbatim>\<open>None\<close> or a list of strings.

  Floats are not modelled bit by bit: the type \<open>'n\<close> of amounts is a parameter, and the
  built-ins that read and print one (\<^verbatim>\<open>float(s)\<close>, \<^verbatim>\<open>str(x)\<close>, \<^verbatim>\<open>int(s)\<close>) together with the
  current date are the fields of a \<open>runtime\<close> record that every operation receives.

  A Python string is modelled by its UTF-8 encoding: a \<open>string\<close> is the list of the bytes
  of the encoded text. An ASCII character is one byte; any other character is a lead byte
  followed by one to three continuation bytes (the bytes \<open>0x80\<close> to \<open>0xBF\<close>), and no byte
  of such a character is an ASCII byte. The program looks at single characters in two
  places only: \<^verbatim>\<open>t['Date'][:7]\<close> counts characters, and \<^verbatim>\<open>strip()\<close> removes whitespace
  characters; \<open>utf8_chars\<close> splits a string into its characters for them. Everything else
  (the comma, the quote, the line breaks, the letters of \<^verbatim>\<open>income\<close> and \<^verbatim>\<open>expense\<close>) is
  ASCII and is found byte by byte. The encoding of the file is taken to be UTF-8 as well,
  so that the text of the file is the string written to it.
\<close>

datatype py_error = ValueError | TypeError | KeyError | AttributeError | CsvError | FileNotFoundError

datatype 'n pyval = PStr string | PFloat 'n | PNone | PList "string list"

type_synonym 'n pydict = "(string option \<times> 'n pyval) list"

record 'n runtime =
  py_float :: "string \<Rightarrow> 'n option"
  py_str :: "'n pyval \<Rightarrow> string"
  py_int :: "string \<Rightarrow> int option"
  today :: string

text \<open>A continuation byte has its two highest bits \<open>10\<close>.\<close>

definition is_cont :: "char \<Rightarrow> bool" where
  "is_cont c = (digit7 c \<and> \<not> digit6 c)"

text \<open>The characters of a string: every byte that is no continuation byte starts one.\<close>

fun utf8_chars :: "string \<Rightarrow> string list" where
  "utf8_chars [] = []"
| "utf8_chars (c # cs) =
     (case utf8_chars cs of
        [] \<Rightarrow> [[c]]
      | w # ws \<Rightarrow> if w \<noteq> [] \<and> is_cont (hd w) then (c # w) # ws else [c] # w # ws)"

text \<open>\<^verbatim>\<open>s[:n]\<close>: the first \<open>n\<close> characters.\<close>

definition py_prefix :: "nat \<Rightarrow> string \<Rightarrow> string" where
  "py_prefix n s = concat (take n (utf8_chars s))"

definition FIELDNAMES :: "string list" where
  "FIELDNAMES = [''Date'', ''Description'', ''Type'', ''Category'', ''Amount'']"

text \<open>\<^verbatim>\<open>d[k]\<close>: a missing key raises \<^verbatim>\<open>KeyError\<close>.\<close>

definition getitem :: "'n pydict \<Rightarrow> string \<Rightarrow> py_error + 'n pyval" where
  "getitem d k = (case map_of d (Some k) of None \<Rightarrow> Inl KeyError | Some v \<Rightarrow> Inr v)"

text \<open>\<^verbatim>\<open>d[k] = v\<close>: an existing key keeps its place, a new key goes last.\<close>

definition setitem :: "string \<Rightarrow> 'n pyval \<Rightarrow> 'n pydict \<Rightarrow> 'n pydict" where
  "setitem k v d = AList.update (Some k) v d"

text \<open>\<^verbatim>\<open>d.setdefault(k, v)\<close>: stores \<open>v\<close> only when the key is absent.\<close>

definition setdefault :: "string \<Rightarrow> 'n pyval \<Rightarrow> 'n pydict \<Rightarrow> 'n pydict" where
  "setdefault k v d = (case map_of d (Some k) of None \<Rightarrow> setitem k v d | Some _ \<Rightarrow> d)"

text \<open>
  \<^verbatim>\<open>float(v)\<close>: a string is parsed (\<^verbatim>\<open>ValueError\<close> when it is no number), a float is
  returned as it is, \<^verbatim>\<open>None\<close> and a list raise \<^verbatim>\<open>TypeError\<close>.
\<close>

definition float_of :: "'n runtime \<Rightarrow> 'n pyval \<Rightarrow> py_error + 'n" where
  "float_of rt v =
     (case v of
        PStr s \<Rightarrow> (case py_float rt s of None \<Rightarrow> Inl ValueError | Some x \<Rightarrow> Inr x)
      | PFloat x \<Rightarrow> Inr x
      | PNone \<Rightarrow> Inl TypeError
      | PList l \<Rightarrow> Inl TypeError)"

text \<open>
  \<^verbatim>\<open>s.lower()\<close>: the ASCII capitals are lowered and every other byte is left as it is.
  Python lowers the capitals outside ASCII too, but none of them becomes a letter of
  \<^verbatim>\<open>income\<close> or \<^verbatim>\<open>expense\<close>, so \<^verbatim>\<open>s.lower() == 'income'\<close> and \<^verbatim>\<open>s.lower() == 'expense'\<close>
  are decided as Python decides them, for every string. The comparison with the filter of
  \<^verbatim>\<open>show_transactions\<close> is exact for ASCII text only; no statement below uses a filter.
\<close>

definition lower_char :: "char \<Rightarrow> char" where
  "lower_char c =
     (case map_of (zip ''ABCDEFGHIJKLMNOPQRSTUVWXYZ'' ''abcdefghijklmnopqrstuvwxyz'') c of
        Some d \<Rightarrow> d
      | None \<Rightarrow> c)"

definition py_lower :: "string \<Rightarrow> string" where
  "py_lower s = map lower_char s"

text \<open>An f-string field \<^verbatim>\<open>{v}\<close> without a format specification is \<^verbatim>\<open>str(v)\<close>.\<close>

definition format_plain :: "'n runtime \<Rightarrow> 'n pyval \<Rightarrow> string" where
  "format_plain rt v = (case v of PStr s \<Rightarrow> s | PNone \<Rightarrow> ''None'' | _ \<Rightarrow> py_str rt v)"

section \<open>Derived views\<close>

subsection \<open>\<^verbatim>\<open>calculate_balance\<close>\<close>




subsection \<open>\<^verbatim>\<open>calculate_monthly_expenses\<close>\<close>

text \<open>\<^verbatim>\<open>v[:7]\<close>: a string and a list are sliced, anything else is not subscriptable.\<close>

definition slice7 :: "'n pyval \<Rightarrow> py_error + 'n pyval" where
  "slice7 v =
     (case v of
        PStr s \<Rightarrow> Inr (PStr (py_prefix 7 s))
      | PList l \<Rightarrow> Inr (PList (take 7 l))
      | _ \<Rightarrow> Inl TypeError)"

text \<open>\<^verbatim>\<open>monthly[key] = monthly.get(key, 0) + amount\<close>\<close>

definition monthly_add :: "string \<Rightarrow> 'n \<Rightarrow> (string \<times> ('n::{zero,plus})) list \<Rightarrow> (string \<times> 'n) list" where
  "monthly_add k x monthly =
     AList.update k ((case map_of monthly k of None \<Rightarrow> 0 | Some v \<Rightarrow> v) + x) monthly"

fun monthly_loop ::
  "'n runtime \<Rightarrow> (string \<times> ('n::{zero,plus})) list \<Rightarrow> 'n pydict list \<Rightarrow> py_error + (string \<times> 'n) list"
where
  "monthly_loop rt monthly [] = Inr monthly"
| "monthly_loop rt monthly (t # ts) =
     (case getitem t ''Type'' of
        Inl e \<Rightarrow> Inl e
      | Inr (PStr s) \<Rightarrow>
          if py_lower s = ''expense'' then
            (case getitem t ''Category'' of
               Inl e \<Rightarrow> Inl e
             | Inr category \<Rightarrow>
                 (case getitem t ''Date'' of
                    Inl e \<Rightarrow> Inl e
                  | Inr d \<Rightarrow>
                      (case slice7 d of
                         Inl e \<Rightarrow> Inl e
                       | Inr month \<Rightarrow>
                           (case getitem t ''Amount'' of
                              Inl e \<Rightarrow> Inl e
                            | Inr (PFloat x) \<Rightarrow>
                                monthly_loop rt
                                  (monthly_add (format_plain rt month @ '' - '' @ format_plain rt category) x monthly)
                                  ts
                            | Inr _ \<Rightarrow> Inl TypeError))))
          else monthly_loop rt monthly ts
      | Inr _ \<Rightarrow> Inl AttributeError)"

definition calculate_monthly_expenses ::
  "'n runtime \<Rightarrow> ('n::{zero,plus}) pydict list \<Rightarrow> py_error + (string \<times> 'n) list" where
  "calculate_monthly_expenses rt transactions = monthly_loop rt [] transactions"

section \<open>Mutation operations\<close>

text \<open>
  The answers typed at the prompts of one call are arguments of the operation, in the
  order the prompts appear. Every operation returns what it reported together with the
  list of transactions as the call leaves it: the Python list is mutated in place, so the
  list is there also after an exception. The dictionaries of the list are distinct
  objects (each is made by its own row of the reader or its own dictionary display), so
  the list is modelled by value.
\<close>

subsection \<open>\<^verbatim>\<open>show_transactions\<close>\<close>

text \<open>
  Only whether the listing raises is modelled, not the table it prints. A field formatted
  with a width (\<^verbatim>\<open>{v:<12}\<close>) raises \<^verbatim>\<open>TypeError\<close> for \<^verbatim>\<open>None\<close> and for a list; the amount
  formatted with \<^verbatim>\<open>{v:>10.2f}\<close> raises \<^verbatim>\<open>ValueError\<close> for a string and \<^verbatim>\<open>TypeError\<close> for
  \<^verbatim>\<open>None\<close> and for a list.
\<close>

definition format_width :: "'n pyval \<Rightarrow> py_error option" where
  "format_width v = (case v of PStr s \<Rightarrow> None | PFloat x \<Rightarrow> None | _ \<Rightarrow> Some TypeError)"

definition format_fixed :: "'n pyval \<Rightarrow> py_error option" where
  "format_fixed v =
     (case v of PFloat x \<Rightarrow> None | PStr s \<Rightarrow> Some ValueError | _ \<Rightarrow> Some TypeError)"

definition show_field :: "('n pyval \<Rightarrow> py_error option) \<Rightarrow> 'n pydict \<Rightarrow> string \<Rightarrow> py_error option" where
  "show_field fmt t k = (case getitem t k of Inl e \<Rightarrow> Some e | Inr v \<Rightarrow> fmt v)"

fun first_error :: "py_error option list \<Rightarrow> py_error option" where
  "first_error [] = None"
| "first_error (None # es) = first_error es"
| "first_error (Some e # es) = Some e"

definition show_row :: "'n pydict \<Rightarrow> py_error option" where
  "show_row t =
     first_error
       [show_field format_width t ''Date'', show_field format_width t ''Description'',
        show_field format_width t ''Type'', show_field format_width t ''Category'',
        show_field format_fixed t ''Amount'']"

fun filter_by_type :: "string \<Rightarrow> 'n pydict list \<Rightarrow> py_error + 'n pydict list" where
  "filter_by_type f [] = Inr []"
| "filter_by_type f (t # ts) =
     (case getitem t ''Type'' of
        Inl e \<Rightarrow> Inl e
      | Inr (PStr s) \<Rightarrow>
          (case filter_by_type f ts of
             Inl e \<Rightarrow> Inl e
           | Inr r \<Rightarrow> Inr (if py_lower s = py_lower f then t # r else r))
      | Inr _ \<Rightarrow> Inl AttributeError)"

definition show_transactions :: "'n pydict list \<Rightarrow> string option \<Rightarrow> py_error option" where
  "show_transactions transactions filter_type =
     (if transactions = [] then None
      else (case filter_type of
              None \<Rightarrow> first_error (map show_row transactions)
            | Some f \<Rightarrow>
                if f = [] then first_error (map show_row transactions)
                else (case filter_by_type f transactions of
                        Inl e \<Rightarrow> Some e
                      | Inr shown \<Rightarrow> first_error (map show_row shown))))"

subsection \<open>The three constructors\<close>

datatype add_outcome = Added | InvalidAmount

definition add_income ::
  "'n runtime \<Rightarrow> string \<Rightarrow> string \<Rightarrow> string \<Rightarrow> 'n pydict list \<Rightarrow> add_outcome \<times> 'n pydict list" where
  "add_income rt date_in description amount_in transactions =
     (let date_str = (if date_in \<noteq> [] then date_in else today rt) in
      case float_of rt (PStr amount_in) of
        Inl e \<Rightarrow> (InvalidAmount, transactions)
      | Inr amount \<Rightarrow>
          (Added,
           transactions @
             [[(Some ''Date'', PStr date_str), (Some ''Description'', PStr description),
               (Some ''Type'', PStr ''Income''), (Some ''Amount'', PFloat amount)]]))"

definition add_expense ::
  "'n runtime \<Rightarrow> string \<Rightarrow> string \<Rightarrow> string \<Rightarrow> string \<Rightarrow> 'n pydict list \<Rightarrow> add_outcome \<times> 'n pydict list" where
  "add_expense rt date_in description category_in amount_in transactions =
     (let date_str = (if date_in \<noteq> [] then date_in else today rt);
          category = (if category_in \<noteq> [] then category_in else ''Expense'') in
      case float_of rt (PStr amount_in) of
        Inl e \<Rightarrow> (InvalidAmount, transactions)
      | Inr amount \<Rightarrow>
          (Added,
           transactions @
             [[(Some ''Date'', PStr date_str), (Some ''Description'', PStr description),
               (Some ''Type'', PStr ''Expense''), (Some ''Category'', PStr category),
               (Some ''Amount'', PFloat amount)]]))"

definition add_payroll ::
  "'n runtime \<Rightarrow> string \<Rightarrow> string \<Rightarrow> 'n pydict list \<Rightarrow> add_outcome \<times> 'n pydict list" where
  "add_payroll rt employee salary_in transactions =
     (case float_of rt (PStr salary_in) of
        Inl e \<Rightarrow> (InvalidAmount, transactions)
      | Inr salary \<Rightarrow>
          (Added,
           transactions @
             [[(Some ''Date'', PStr (today rt)), (Some ''Description'', PStr (''Payroll - '' @ employee)),
               (Some ''Type'', PStr ''Expense''), (Some ''Category'', PStr ''Payroll''),
               (Some ''Amount'', PFloat salary)]]))"

subsection \<open>\<^verbatim>\<open>update_transaction\<close>\<close>

text \<open>
  What one call reports: \<open>NoTransactions\<close>, \<open>InvalidInput\<close> and \<open>InvalidNumber\<close> are the
  three messages that end the call without an edit, \<open>Updated w\<close> is the success message,
  with \<open>w\<close> telling whether "Invalid amount, keeping old value." was printed before it,
  and \<open>Raised e\<close> is an exception that leaves the call.
\<close>

datatype update_outcome = NoTransactions | InvalidInput | InvalidNumber | Updated bool | Raised py_error

text \<open>\<^verbatim>\<open>t[k] = input(f"... ({t[k]}): ") or t[k]\<close>: the prompt reads the old value first.\<close>

definition replace_text :: "string \<Rightarrow> string \<Rightarrow> 'n pydict \<Rightarrow> py_error + 'n pydict" where
  "replace_text k answer t =
     (case getitem t k of
        Inl e \<Rightarrow> Inl e
      | Inr old \<Rightarrow> Inr (setitem k (if answer \<noteq> [] then PStr answer else old) t))"

definition edit_record ::
  "'n runtime \<Rightarrow> string \<Rightarrow> string \<Rightarrow> string \<Rightarrow> string \<Rightarrow> 'n pydict \<Rightarrow> update_outcome \<times> 'n pydict" where
  "edit_record rt description_in type_in category_in amount_in t =
     (case replace_text ''Description'' description_in t of
        Inl e \<Rightarrow> (Raised e, t)
      | Inr t1 \<Rightarrow>
          (case replace_text ''Type'' type_in t1 of
             Inl e \<Rightarrow> (Raised e, t1)
           | Inr t2 \<Rightarrow>
               (case replace_text ''Category'' category_in t2 of
                  Inl e \<Rightarrow> (Raised e, t2)
                | Inr t3 \<Rightarrow>
                    (case getitem t3 ''Amount'' of
                       Inl e \<Rightarrow> (Raised e, t3)
                     | Inr old \<Rightarrow>
                         if amount_in \<noteq> [] then
                           (case float_of rt (PStr amount_in) of
                              Inl e \<Rightarrow> (Updated True, t3)
                            | Inr x \<Rightarrow> (Updated False, setitem ''Amount'' (PFloat x) t3))
                         else (Updated False, t3)))))"

definition update_transaction ::
  "'n runtime \<Rightarrow> string \<Rightarrow> string \<Rightarrow> string \<Rightarrow> string \<Rightarrow> string \<Rightarrow> 'n pydict list
     \<Rightarrow> update_outcome \<times> 'n pydict list" where
  "update_transaction rt number_in description_in type_in category_in amount_in transactions =
     (if transactions = [] then (NoTransactions, transactions)
      else (case show_transactions transactions None of
              Some e \<Rightarrow> (Raised e, transactions)
            | None \<Rightarrow>
                (case py_int rt number_in of
                   None \<Rightarrow> (InvalidInput, transactions)
                 | Some n \<Rightarrow>
                     (let index = n - 1 in
                      if 0 \<le> index \<and> index < int (length transactions) then
                        (case edit_record rt description_in type_in category_in amount_in
                                (transactions ! nat index) of
                           (outcome, t) \<Rightarrow> (outcome, transactions[nat index := t]))
                      else (InvalidNumber, transactions)))))"

section \<open>The backing file\<close>

text \<open>
  The file system is the one file \<^verbatim>\<open>bookkeeping.csv\<close>: \<open>None\<close> when it does not exist,
  \<open>Some text\<close> with its contents otherwise. Decoding and the failures of the operating
  system are outside the model: a file that exists can be read and written.
\<close>

subsection \<open>Lines and whitespace\<close>

definition is_newline :: "char \<Rightarrow> bool" where
  "is_newline c = (c = CHR 0x0A \<or> c = CHR 0x0D)"

text \<open>
  \<^verbatim>\<open>f.readline()\<close> on a file opened with \<^verbatim>\<open>newline=''\<close>: a line ends after a line feed,
  a carriage return, or the pair of them, and keeps its ending. The result is the line
  and the rest of the text.
\<close>

fun readline :: "string \<Rightarrow> string \<times> string" where
  "readline [] = ([], [])"
| "readline (c # cs) =
     (if c = CHR 0x0A then ([c], cs)
      else if c = CHR 0x0D then
        (case cs of
           [] \<Rightarrow> ([c], [])
         | d # ds \<Rightarrow> if d = CHR 0x0A then ([c, d], ds) else ([c], cs))
      else (case readline cs of (l, r) \<Rightarrow> (c # l, r)))"

lemma readline_rest_le: "length (snd (readline s)) \<le> length s"
proof (induction s)
  case Nil
  show ?case by simp
next
  case (Cons c cs)
  show ?case
  proof (cases "readline cs")
    case (Pair l r)
    with Cons show ?thesis by (cases cs) simp_all
  qed
qed

lemma readline_rest_shorter: "s \<noteq> [] \<Longrightarrow> length (snd (readline s)) < length s"
proof (cases s)
  case Nil
  assume "s \<noteq> []"
  with Nil show ?thesis by simp
next
  case (Cons c cs)
  show ?thesis
  proof (cases "readline cs")
    case (Pair l r)
    with Cons readline_rest_le [of cs] show ?thesis by (cases cs) simp_all
  qed
qed

text \<open>Iterating over the file yields its lines until the text is used up.\<close>

function file_lines :: "string \<Rightarrow> string list" where
  "file_lines text =
     (if text = [] then [] else fst (readline text) # file_lines (snd (readline text)))"
  by pat_completeness auto
termination
proof (relation "measure length")
  show "wf (measure length)" by simp
next
  fix s :: string
  assume "s \<noteq> []"
  then show "(snd (readline s), s) \<in> measure length"
    using readline_rest_shorter [of s] by simp
qed

declare file_lines.simps [simp del]

text \<open>
  \<^verbatim>\<open>s.strip()\<close> removes the whitespace characters at both ends. The whitespace
  characters of \<^verbatim>\<open>str.isspace\<close> are U+0009 to U+000D, U+001C to U+0020, U+0085, U+00A0,
  U+1680, U+2000 to U+200A, U+2028, U+2029, U+202F, U+205F and U+3000, here in UTF-8.
\<close>

definition py_isspace :: "string \<Rightarrow> bool" where
  "py_isspace w =
     (w \<in> set [[CHR 0x09], [CHR 0x0A], [CHR 0x0B], [CHR 0x0C], [CHR 0x0D],
                [CHR 0x1C], [CHR 0x1D], [CHR 0x1E], [CHR 0x1F], [CHR 0x20],
                [CHR 0xC2, CHR 0x85], [CHR 0xC2, CHR 0xA0], [CHR 0xE1, CHR 0x9A, CHR 0x80],
                [CHR 0xE2, CHR 0x80, CHR 0x80], [CHR 0xE2, CHR 0x80, CHR 0x81],
                [CHR 0xE2, CHR 0x80, CHR 0x82], [CHR 0xE2, CHR 0x80, CHR 0x83],
                [CHR 0xE2, CHR 0x80, CHR 0x84], [CHR 0xE2, CHR 0x80, CHR 0x85],
                [CHR 0xE2, CHR 0x80, CHR 0x86], [CHR 0xE2, CHR 0x80, CHR 0x87],
                [CHR 0xE2, CHR 0x80, CHR 0x88], [CHR 0xE2, CHR 0x80, CHR 0x89],
                [CHR 0xE2, CHR 0x80, CHR 0x8A], [CHR 0xE2, CHR 0x80, CHR 0xA8],
                [CHR 0xE2, CHR 0x80, CHR 0xA9], [CHR 0xE2, CHR 0x80, CHR 0xAF],
                [CHR 0xE2, CHR 0x81, CHR 0x9F], [CHR 0xE3, CHR 0x80, CHR 0x80]])"

definition py_strip :: "string \<Rightarrow> string" where
  "py_strip s = concat (rev (dropWhile py_isspace (rev (dropWhile py_isspace (utf8_chars s)))))"

fun py_join :: "string \<Rightarrow> string list \<Rightarrow> string" where
  "py_join sep [] = []"
| "py_join sep [x] = x"
| "py_join sep (x # y # ys) = x @ sep @ py_join sep (y # ys)"

subsection \<open>\<^verbatim>\<open>csv.reader\<close>\<close>

text \<open>
  The reader of the \<^verbatim>\<open>csv\<close> module in its default dialect (delimiter comma, quote
  character \<^verbatim>\<open>"\<close>, doubled quotes, not strict): a state machine that is fed the characters
  of each line and then an end-of-line mark (\<open>None\<close>). A record is returned when the
  machine is back in \<open>START_RECORD\<close> after a line; a quoted field runs on over the end of
  a line. The limit on the size of a field is not modelled.
\<close>

datatype parse_state =
  START_RECORD | START_FIELD | IN_FIELD | IN_QUOTED_FIELD | QUOTE_IN_QUOTED_FIELD | EAT_CRNL

record reader =
  rd_state :: parse_state
  rd_fields :: "string list"
  rd_field :: string

definition parse_reset :: reader where
  "parse_reset = \<lparr>rd_state = START_RECORD, rd_fields = [], rd_field = []\<rparr>"

definition parse_save_field :: "reader \<Rightarrow> reader" where
  "parse_save_field p = p\<lparr>rd_fields := rd_fields p @ [rd_field p], rd_field := []\<rparr>"

definition parse_add_char :: "reader \<Rightarrow> char \<Rightarrow> reader" where
  "parse_add_char p c = p\<lparr>rd_field := rd_field p @ [c]\<rparr>"

definition end_of_field :: "reader \<Rightarrow> char option \<Rightarrow> reader" where
  "end_of_field p c =
     (parse_save_field p)\<lparr>rd_state := (if c = None then START_RECORD else EAT_CRNL)\<rparr>"

definition start_field :: "reader \<Rightarrow> char option \<Rightarrow> reader" where
  "start_field p c =
     (case c of
        None \<Rightarrow> end_of_field p c
      | Some ch \<Rightarrow>
          if is_newline ch then end_of_field p c
          else if ch = CHR 0x22 then p\<lparr>rd_state := IN_QUOTED_FIELD\<rparr>
          else if ch = CHR '','' then parse_save_field p
          else (parse_add_char p ch)\<lparr>rd_state := IN_FIELD\<rparr>)"

definition parse_process_char :: "reader \<Rightarrow> char option \<Rightarrow> py_error + reader" where
  "parse_process_char p c =
     (case rd_state p of
        START_RECORD \<Rightarrow>
          (case c of
             None \<Rightarrow> Inr p
           | Some ch \<Rightarrow>
               if is_newline ch then Inr (p\<lparr>rd_state := EAT_CRNL\<rparr>)
               else Inr (start_field (p\<lparr>rd_state := START_FIELD\<rparr>) c))
      | START_FIELD \<Rightarrow> Inr (start_field p c)
      | IN_FIELD \<Rightarrow>
          (case c of
             None \<Rightarrow> Inr (end_of_field p c)
           | Some ch \<Rightarrow>
               if is_newline ch then Inr (end_of_field p c)
               else if ch = CHR '','' then Inr ((parse_save_field p)\<lparr>rd_state := START_FIELD\<rparr>)
               else Inr (parse_add_char p ch))
      | IN_QUOTED_FIELD \<Rightarrow>
          (case c of
             None \<Rightarrow> Inr p
           | Some ch \<Rightarrow>
               if ch = CHR 0x22 then Inr (p\<lparr>rd_state := QUOTE_IN_QUOTED_FIELD\<rparr>)
               else Inr (parse_add_char p ch))
      | QUOTE_IN_QUOTED_FIELD \<Rightarrow>
          (case c of
             None \<Rightarrow> Inr (end_of_field p c)
           | Some ch \<Rightarrow>
               if ch = CHR 0x22 then Inr ((parse_add_char p ch)\<lparr>rd_state := IN_QUOTED_FIELD\<rparr>)
               else if ch = CHR '','' then Inr ((parse_save_field p)\<lparr>rd_state := START_FIELD\<rparr>)
               else if is_newline ch then Inr (end_of_field p c)
               else Inr ((parse_add_char p ch)\<lparr>rd_state := IN_FIELD\<rparr>))
      | EAT_CRNL \<Rightarrow>
          (case c of
             None \<Rightarrow> Inr (p\<lparr>rd_state := START_RECORD\<rparr>)
           | Some ch \<Rightarrow> if is_newline ch then Inr p else Inl CsvError))"

fun process_line :: "reader \<Rightarrow> string \<Rightarrow> py_error + reader" where
  "process_line p [] = parse_process_char p None"
| "process_line p (c # cs) =
     (case parse_process_char p (Some c) of Inl e \<Rightarrow> Inl e | Inr p' \<Rightarrow> process_line p' cs)"

text \<open>
  The records of a list of lines, and the error that ended the reading, if any. At the
  end of the input an open quoted rd_field closes the last record.
\<close>

fun csv_reader :: "reader \<Rightarrow> string list \<Rightarrow> string list list \<times> py_error option" where
  "csv_reader p [] =
     (if rd_field p \<noteq> [] \<or> rd_state p = IN_QUOTED_FIELD then ([rd_fields (parse_save_field p)], None)
      else ([], None))"
| "csv_reader p (l # ls) =
     (case process_line p l of
        Inl e \<Rightarrow> ([], Some e)
      | Inr p' \<Rightarrow>
          if rd_state p' = START_RECORD then
            (case csv_reader parse_reset ls of (rows, e) \<Rightarrow> (rd_fields p' # rows, e))
          else csv_reader p' ls)"

subsection \<open>\<^verbatim>\<open>csv.DictReader\<close>\<close>

text \<open>
  The first record gives the field names. A later record becomes a dictionary: the names
  zipped with the cells, the surplus cells of a long row as a list under the key \<^verbatim>\<open>None\<close>,
  the missing cells of a short row as the value \<^verbatim>\<open>None\<close>. Empty records are passed over.
\<close>

definition row_dict :: "string list \<Rightarrow> string list \<Rightarrow> 'n pydict" where
  "row_dict fieldnames row =
     (let d = foldl (\<lambda>d (k, v). setitem k (PStr v) d) [] (zip fieldnames row);
          lf = length fieldnames;
          lr = length row
      in if lf < lr then AList.update None (PList (drop lf row)) d
         else if lr < lf then foldl (\<lambda>d k. setitem k PNone d) d (drop lr fieldnames)
         else d)"

definition DictReader :: "string \<Rightarrow> 'n pydict list \<times> py_error option" where
  "DictReader text =
     (case csv_reader parse_reset (file_lines text) of
        ([], e) \<Rightarrow> ([], e)
      | (fieldnames # rows, e) \<Rightarrow> (map (row_dict fieldnames) (filter (\<lambda>r. r \<noteq> []) rows), e))"

subsection \<open>\<^verbatim>\<open>csv.DictWriter\<close>\<close>

text \<open>
  A field is quoted when it holds the delimiter, the quote character or a line break;
  a quote inside it is doubled. A record that would be empty is written as \<^verbatim>\<open>""\<close>. The
  line ends with carriage return and line feed.
\<close>

definition needs_quotes :: "string \<Rightarrow> bool" where
  "needs_quotes s = list_ex (\<lambda>c. c = CHR '','' \<or> c = CHR 0x22 \<or> is_newline c) s"

definition quote_field :: "string \<Rightarrow> string" where
  "quote_field s =
     (if needs_quotes s
      then CHR 0x22 # concat (map (\<lambda>c. if c = CHR 0x22 then [c, c] else [c]) s) @ [CHR 0x22]
      else s)"

definition csv_writerow :: "string list \<Rightarrow> string" where
  "csv_writerow cells =
     (let rec = py_join '','' (map quote_field cells)
      in (if cells \<noteq> [] \<and> rec = [] then [CHR 0x22, CHR 0x22] else rec) @ [CHR 0x0D, CHR 0x0A])"

text \<open>A cell: a string as it is, \<^verbatim>\<open>None\<close> as the empty string, anything else by \<^verbatim>\<open>str\<close>.\<close>

definition cell_text :: "'n runtime \<Rightarrow> 'n pyval \<Rightarrow> string" where
  "cell_text rt v = (case v of PStr s \<Rightarrow> s | PNone \<Rightarrow> [] | _ \<Rightarrow> py_str rt v)"

text \<open>
  \<^verbatim>\<open>DictWriter._dict_to_list\<close> with \<^verbatim>\<open>extrasaction='raise'\<close> and \<^verbatim>\<open>restval=''\<close>, the defaults:
  a key outside the field names raises \<^verbatim>\<open>ValueError\<close>, a missing key is written empty.
\<close>

definition dict_to_list :: "string list \<Rightarrow> 'n pydict \<Rightarrow> py_error + 'n pyval list" where
  "dict_to_list fieldnames rowdict =
     (if list_ex (\<lambda>k. k \<notin> set (map Some fieldnames)) (map fst rowdict) then Inl ValueError
      else Inr (map (\<lambda>k. case map_of rowdict (Some k) of None \<Rightarrow> PStr [] | Some v \<Rightarrow> v) fieldnames))"

definition writeheader :: "string list \<Rightarrow> string" where
  "writeheader fieldnames = csv_writerow fieldnames"

text \<open>
  \<^verbatim>\<open>writerows\<close> writes row after row: the text written, and the error that stopped it. The
  rows before a refused dictionary are in the file.
\<close>

fun writerows :: "'n runtime \<Rightarrow> string list \<Rightarrow> 'n pydict list \<Rightarrow> string \<times> py_error option" where
  "writerows rt fieldnames [] = ([], None)"
| "writerows rt fieldnames (d # ds) =
     (case dict_to_list fieldnames d of
        Inl e \<Rightarrow> ([], Some e)
      | Inr vs \<Rightarrow>
          (case writerows rt fieldnames ds of
             (text, e) \<Rightarrow> (csv_writerow (map (cell_text rt) vs) @ text, e)))"

subsection \<open>\<^verbatim>\<open>ensure_csv_file\<close>\<close>

text \<open>
  The result is the exception that leaves the call, if any, and the file afterwards.
  In the repair branch the reading is wrapped in \<^verbatim>\<open>try ... except Exception: pass\<close>, so the
  rows read before an error are kept; the rewriting is not.
\<close>

definition ensure_csv_file :: "'n runtime \<Rightarrow> string option \<Rightarrow> py_error option \<times> string option" where
  "ensure_csv_file rt file =
     (case file of
        None \<Rightarrow> (None, Some (writeheader FIELDNAMES))
      | Some text \<Rightarrow>
          (let first_line = py_strip (fst (readline text)) in
           if first_line \<noteq> py_join '','' FIELDNAMES then
             (case writerows rt FIELDNAMES (fst (DictReader text)) of
                (out, e) \<Rightarrow> (e, Some (writeheader FIELDNAMES @ out)))
           else (None, Some text)))"

subsection \<open>\<^verbatim>\<open>save_transactions\<close>\<close>

definition save_transactions ::
  "'n runtime \<Rightarrow> string option \<Rightarrow> 'n pydict list \<Rightarrow> py_error option \<times> string option" where
  "save_transactions rt file transactions =
     (case ensure_csv_file rt file of
        (Some e, file') \<Rightarrow> (Some e, file')
      | (None, file') \<Rightarrow>
          (case writerows rt FIELDNAMES transactions of
             (out, e) \<Rightarrow> (e, Some (writeheader FIELDNAMES @ out))))"

subsection \<open>\<^verbatim>\<open>load_transactions\<close>\<close>

text \<open>\<^verbatim>\<open>float(row.get('Amount', 0))\<close>: an absent key gives \<^verbatim>\<open>float(0)\<close>.\<close>

definition row_amount :: "('n::zero) runtime \<Rightarrow> 'n pydict \<Rightarrow> py_error + 'n" where
  "row_amount rt row =
     (case map_of row (Some ''Amount'') of None \<Rightarrow> Inr 0 | Some v \<Rightarrow> float_of rt v)"

definition backfill :: "'n pydict \<Rightarrow> 'n pydict" where
  "backfill row = foldl (\<lambda>d k. setdefault k (PStr ''N/A'') d) row FIELDNAMES"

text \<open>
  The loop over the rows. The result is the list of transactions, the rows reported as
  skipped, and the error reported by the outer handler, which ends the loop; \<open>e\<close> is the
  error of the reader after the last row.
\<close>

fun load_rows ::
  "('n::zero) runtime \<Rightarrow> py_error option \<Rightarrow> 'n pydict list
     \<Rightarrow> 'n pydict list \<times> 'n pydict list \<times> py_error option" where
  "load_rows rt e [] = ([], [], e)"
| "load_rows rt e (row # rows) =
     (case row_amount rt row of
        Inl err \<Rightarrow>
          if err = ValueError then
            (case load_rows rt e rows of (ts, skipped, le) \<Rightarrow> (ts, row # skipped, le))
          else ([], [], Some err)
      | Inr x \<Rightarrow>
          (case load_rows rt e rows of
             (ts, skipped, le) \<Rightarrow> (backfill (setitem ''Amount'' (PFloat x) row) # ts, skipped, le)))"

text \<open>
  The result is the exception that leaves the call (only \<^verbatim>\<open>ensure_csv_file\<close>, called
  before the \<^verbatim>\<open>try\<close>, can raise one), the file afterwards, and the result of the loop.
\<close>

definition load_transactions ::
  "('n::zero) runtime \<Rightarrow> string option
     \<Rightarrow> py_error option \<times> string option \<times> 'n pydict list \<times> 'n pydict list \<times> py_error option" where
  "load_transactions rt file =
     (case ensure_csv_file rt file of
        (Some e, file') \<Rightarrow> (Some e, file', [], [], None)
      | (None, file') \<Rightarrow>
          (case file' of
             None \<Rightarrow> (None, file', [], [], Some FileNotFoundError)
           | Some text \<Rightarrow>
               (case DictReader text of (rows, e) \<Rightarrow> (None, file', load_rows rt e rows))))"

section \<open>Well-formed records\<close>

text \<open>
  The record of the data model has the five fields: \<open>Date\<close>, \<open>Description\<close>, \<open>Type\<close> and
  \<open>Category\<close> are strings and \<open>Amount\<close> is a number. \<open>has_str\<close> and \<open>has_amount\<close> say that a
  dictionary holds such a field, \<open>str_field\<close> and \<open>amount_field\<close> read it.
\<close>

definition has_str :: "'n pydict \<Rightarrow> string \<Rightarrow> bool" where
  "has_str t k = (case map_of t (Some k) of Some (PStr s) \<Rightarrow> True | _ \<Rightarrow> False)"

definition has_amount :: "'n pydict \<Rightarrow> bool" where
  "has_amount t = (case map_of t (Some ''Amount'') of Some (PFloat x) \<Rightarrow> True | _ \<Rightarrow> False)"

definition str_field :: "'n pydict \<Rightarrow> string \<Rightarrow> string" where
  "str_field t k = (case map_of t (Some k) of Some (PStr s) \<Rightarrow> s | _ \<Rightarrow> [])"

definition amount_field :: "('n::zero) pydict \<Rightarrow> 'n" where
  "amount_field t = (case map_of t (Some ''Amount'') of Some (PFloat x) \<Rightarrow> x | _ \<Rightarrow> 0)"

definition well_formed :: "'n pydict \<Rightarrow> bool" where
  "well_formed t =
     (has_str t ''Date'' \<and> has_str t ''Description'' \<and> has_str t ''Type'' \<and>
      has_str t ''Category'' \<and> has_amount t)"


text \<open>
  A runtime for the worked examples: it reads and prints the two amounts \<open>100.0\<close> and
  \<open>12\<close>, and reads the positions \<open>1\<close> and \<open>2\<close>.
\<close>

definition sample_runtime :: "int runtime" where
  "sample_runtime =
     \<lparr>py_float = (\<lambda>s. if s = ''100.0'' then Some 100 else if s = ''12'' then Some 12 else None),
      py_str = (\<lambda>v. if v = PFloat 100 then ''100.0'' else if v = PFloat 12 then ''12'' else ''?''),
      py_int = (\<lambda>s. if s = ''1'' then Some 1 else if s = ''2'' then Some 2 else None),
      today = ''2026-01-01''\<rparr>"

section \<open>Reading a well-formed record\<close>

lemma has_str_getitem: "has_str t k \<Longrightarrow> getitem t k = Inr (PStr (str_field t k))"
  by (auto simp: has_str_def getitem_def str_field_def split: option.splits pyval.splits)

lemma has_amount_getitem: "has_amount t \<Longrightarrow> getitem t ''Amount'' = Inr (PFloat (amount_field t))"
  by (auto simp: has_amount_def getitem_def amount_field_def split: option.splits pyval.splits)

section \<open>The balance\<close>






section \<open>The constructors abort on an amount that is no number\<close>

text \<open>
  Claim C8. When \<^verbatim>\<open>float\<close> rejects the amount typed in, \<^verbatim>\<open>add_income\<close>, \<^verbatim>\<open>add_expense\<close> and
  \<^verbatim>\<open>add_payroll\<close> each report the invalid amount and leave the list of transactions as it
  was: nothing is appended.
\<close>

theorem add_aborts_on_invalid_amount:
  assumes "py_float rt amount_in = None"
  shows "add_income rt date_in description amount_in transactions = (InvalidAmount, transactions) \<and>
         add_expense rt date_in description category_in amount_in transactions =
           (InvalidAmount, transactions) \<and>
         add_payroll rt employee amount_in transactions = (InvalidAmount, transactions)"
  using assms by (simp add: add_income_def add_expense_def add_payroll_def float_of_def)

theorem add_aborts_on_invalid_amount_witness:
  "py_float sample_runtime ''abc'' = None \<and>
   add_income sample_runtime ''2024-01-05'' ''Tea'' ''abc'' [] = (InvalidAmount, []) \<and>
   add_expense sample_runtime ''2024-01-05'' ''Tea'' ''Food'' ''abc'' [] = (InvalidAmount, []) \<and>
   add_payroll sample_runtime ''Ana'' ''abc'' [] = (InvalidAmount, ([] :: int pydict list))"
proof -
  have h: "py_float sample_runtime ''abc'' = None" by (simp add: sample_runtime_def)
  show ?thesis
    using h add_aborts_on_invalid_amount
      [OF h, of "''2024-01-05''" "''Tea''" "[]" "''Food''" "''Ana''"]
    by simp
qed

section \<open>Updating a transaction\<close>

lemma getitem_setitem_other: "k' \<noteq> k \<Longrightarrow> getitem (setitem k v t) k' = getitem t k'"
  by (simp add: getitem_def setitem_def update_conv')

lemma getitem_setitem_same: "getitem (setitem k v t) k = Inr v"
  by (simp add: getitem_def setitem_def update_conv')

lemma replace_text_other:
  "replace_text k answer t = Inr t' \<Longrightarrow> k' \<noteq> k \<Longrightarrow> getitem t' k' = getitem t k'"
  by (auto simp: replace_text_def getitem_setitem_other split: sum.splits)

lemma edit_record_date:
  "getitem (snd (edit_record rt description_in type_in category_in amount_in t)) ''Date'' =
   getitem t ''Date''"
proof -
  have a: "\<And>k a u u'. replace_text k a u = Inr u' \<Longrightarrow> k \<noteq> ''Date'' \<Longrightarrow>
             getitem u' ''Date'' = getitem u ''Date''"
    by (rule replace_text_other) auto
  show ?thesis
    unfolding edit_record_def
    by (auto split: sum.splits simp: getitem_setitem_other dest!: a)
qed

text \<open>
  Claim C10. \<^verbatim>\<open>update_transaction\<close> never writes the \<open>Date\<close> field and touches no record but
  the selected one: for every list of transactions and every set of answers, the list
  keeps its length, every record has the \<open>Date\<close> it had (present with the same value, or
  absent), and every record whose 1-based position is not the number typed in is
  unchanged. This holds also when the call ends with an exception.
\<close>

theorem update_transaction_frame:
  "length (snd (update_transaction rt number_in description_in type_in category_in amount_in
                  transactions)) = length transactions \<and>
   (\<forall>i < length transactions.
      getitem (snd (update_transaction rt number_in description_in type_in category_in amount_in
                      transactions) ! i) ''Date'' = getitem (transactions ! i) ''Date'' \<and>
      (py_int rt number_in \<noteq> Some (int i + 1) \<longrightarrow>
         snd (update_transaction rt number_in description_in type_in category_in amount_in
                transactions) ! i = transactions ! i))"
proof -
  let ?e = "\<lambda>n. edit_record rt description_in type_in category_in amount_in (transactions ! nat (n - 1))"
  have d: "getitem (transactions[nat (n - 1) := snd (?e n)] ! i) ''Date'' =
           getitem (transactions ! i) ''Date''"
    if "i < length transactions" for n i
    using that by (cases "nat (n - 1) < length transactions")
       (auto simp: nth_list_update edit_record_date)
  have o: "transactions[nat (n - 1) := snd (?e n)] ! i = transactions ! i"
    if "i < length transactions" "n \<noteq> int i + 1" "0 \<le> n - 1" for n i
    using that by (cases "nat (n - 1) < length transactions")
       (auto simp: nth_list_update)
  show ?thesis
    unfolding update_transaction_def Let_def
    using d o
    by (auto split: option.splits prod.splits simp: split_def)
qed

theorem update_transaction_frame_witness:
  "length (snd (update_transaction sample_runtime ''2'' ''Rent'' [] ''Home'' ''12''
      [[(Some ''Date'', PStr ''2024-01-05''), (Some ''Description'', PStr ''Tea''),
        (Some ''Type'', PStr ''Expense''), (Some ''Category'', PStr ''Food''),
        (Some ''Amount'', PFloat 100)],
       [(Some ''Date'', PStr ''2024-02-01''), (Some ''Description'', PStr ''Flat''),
        (Some ''Type'', PStr ''Expense''), (Some ''Category'', PStr ''N/A''),
        (Some ''Amount'', PFloat 100)]])) = 2 \<and>
   getitem (snd (update_transaction sample_runtime ''2'' ''Rent'' [] ''Home'' ''12''
      [[(Some ''Date'', PStr ''2024-01-05''), (Some ''Description'', PStr ''Tea''),
        (Some ''Type'', PStr ''Expense''), (Some ''Category'', PStr ''Food''),
        (Some ''Amount'', PFloat 100)],
       [(Some ''Date'', PStr ''2024-02-01''), (Some ''Description'', PStr ''Flat''),
        (Some ''Type'', PStr ''Expense''), (Some ''Category'', PStr ''N/A''),
        (Some ''Amount'', PFloat 100)]]) ! 1) ''Date'' = Inr (PStr ''2024-02-01'') \<and>
   snd (update_transaction sample_runtime ''2'' ''Rent'' [] ''Home'' ''12''
      [[(Some ''Date'', PStr ''2024-01-05''), (Some ''Description'', PStr ''Tea''),
        (Some ''Type'', PStr ''Expense''), (Some ''Category'', PStr ''Food''),
        (Some ''Amount'', PFloat 100)],
       [(Some ''Date'', PStr ''2024-02-01''), (Some ''Description'', PStr ''Flat''),
        (Some ''Type'', PStr ''Expense''), (Some ''Category'', PStr ''N/A''),
        (Some ''Amount'', PFloat 100)]]) ! 0 =
      [(Some ''Date'', PStr ''2024-01-05''), (Some ''Description'', PStr ''Tea''),
        (Some ''Type'', PStr ''Expense''), (Some ''Category'', PStr ''Food''),
        (Some ''Amount'', PFloat 100)]"
proof -
  let ?ts = "[[(Some ''Date'', PStr ''2024-01-05''), (Some ''Description'', PStr ''Tea''),
        (Some ''Type'', PStr ''Expense''), (Some ''Category'', PStr ''Food''),
        (Some ''Amount'', PFloat 100)],
       [(Some ''Date'', PStr ''2024-02-01''), (Some ''Description'', PStr ''Flat''),
        (Some ''Type'', PStr ''Expense''), (Some ''Category'', PStr ''N/A''),
        (Some ''Amount'', PFloat 100)]] :: int pydict list"
  let ?r = "snd (update_transaction sample_runtime ''2'' ''Rent'' [] ''Home'' ''12'' ?ts)"
  have p: "py_int sample_runtime ''2'' \<noteq> Some (int 0 + 1)"
    by (simp add: sample_runtime_def)
  note f = update_transaction_frame [of sample_runtime "''2''" "''Rent''" "[]" "''Home''" "''12''" ?ts]
  from f have l: "length ?r = length ?ts" by (rule conjunct1)
  from f have a: "\<forall>i<length ?ts. getitem (?r ! i) ''Date'' = getitem (?ts ! i) ''Date'' \<and>
      (py_int sample_runtime ''2'' \<noteq> Some (int i + 1) \<longrightarrow> ?r ! i = ?ts ! i)"
    by (rule conjunct2)
  have "(1::nat) < length ?ts" by simp
  with a have a1: "getitem (?r ! 1) ''Date'' = getitem (?ts ! 1) ''Date''" by blast
  have "(0::nat) < length ?ts" by simp
  with a p have a0: "?r ! 0 = ?ts ! 0" by blast
  from l a1 a0 show ?thesis by (simp add: getitem_def)
qed

lemma has_amount_getitem_ex: "has_amount t \<Longrightarrow> \<exists>x. getitem t ''Amount'' = Inr (PFloat x)"
  by (auto simp: has_amount_def getitem_def split: option.splits pyval.splits)

lemma show_row_well_formed:
  assumes "well_formed t"
  shows "show_row t = None"
proof -
  from assms have s: "has_str t ''Date''" "has_str t ''Description''" "has_str t ''Type''"
      "has_str t ''Category''" and a: "has_amount t"
    by (simp_all add: well_formed_def)
  from a obtain x where x: "getitem t ''Amount'' = Inr (PFloat x)"
    using has_amount_getitem_ex by blast
  show ?thesis
    by (simp add: show_row_def show_field_def s [THEN has_str_getitem] x
        format_width_def format_fixed_def)
qed

lemma show_transactions_well_formed:
  "list_all well_formed ts \<Longrightarrow> show_transactions ts None = None"
proof -
  assume "list_all well_formed ts"
  then have "first_error (map show_row ts) = None"
    by (induction ts) (simp_all add: show_row_well_formed)
  then show ?thesis by (simp add: show_transactions_def)
qed

lemma has_str_setitem_other: "k' \<noteq> k \<Longrightarrow> has_str (setitem k v t) k' = has_str t k'"
  by (simp add: has_str_def setitem_def update_conv')

lemma str_field_setitem_other: "k' \<noteq> k \<Longrightarrow> str_field (setitem k v t) k' = str_field t k'"
  by (simp add: str_field_def setitem_def update_conv')

lemma str_field_setitem_same: "str_field (setitem k (PStr s) t) k = s"
  by (simp add: str_field_def setitem_def update_conv')

lemma has_str_setitem_same: "has_str (setitem k (PStr s) t) k"
  by (simp add: has_str_def setitem_def update_conv')

lemma has_amount_setitem_other: "k \<noteq> ''Amount'' \<Longrightarrow> has_amount (setitem k v t) = has_amount t"
  by (simp add: has_amount_def setitem_def update_conv')

lemma amount_field_setitem_other:
  "k \<noteq> ''Amount'' \<Longrightarrow> amount_field (setitem k v t) = amount_field t"
  by (simp add: amount_field_def setitem_def update_conv')

lemma amount_field_setitem_same: "amount_field (setitem ''Amount'' (PFloat x) t) = x"
  by (simp add: amount_field_def setitem_def update_conv')

lemma has_amount_setitem_same: "has_amount (setitem ''Amount'' (PFloat x) t)"
  by (simp add: has_amount_def setitem_def update_conv')

lemma replace_text_has_str:
  "has_str t k \<Longrightarrow>
   replace_text k answer t = Inr (setitem k (PStr (if answer \<noteq> [] then answer else str_field t k)) t)"
  by (simp add: replace_text_def has_str_getitem)

definition edited ::
  "'n runtime \<Rightarrow> string \<Rightarrow> string \<Rightarrow> string \<Rightarrow> string \<Rightarrow> ('n::zero) pydict \<Rightarrow> 'n pydict \<Rightarrow> bool" where
  "edited rt description_in type_in category_in amount_in t t' =
     (str_field t' ''Description'' =
        (if description_in = [] then str_field t ''Description'' else description_in) \<and>
      str_field t' ''Type'' = (if type_in = [] then str_field t ''Type'' else type_in) \<and>
      str_field t' ''Category'' =
        (if category_in = [] then str_field t ''Category'' else category_in) \<and>
      amount_field t' =
        (if amount_in = [] then amount_field t
         else (case py_float rt amount_in of None \<Rightarrow> amount_field t | Some x \<Rightarrow> x)) \<and>
      str_field t' ''Date'' = str_field t ''Date'' \<and> well_formed t')"

definition edit_texts :: "string \<Rightarrow> string \<Rightarrow> string \<Rightarrow> 'n pydict \<Rightarrow> 'n pydict" where
  "edit_texts description_in type_in category_in t =
     setitem ''Category''
       (PStr (if category_in \<noteq> [] then category_in else str_field t ''Category''))
       (setitem ''Type'' (PStr (if type_in \<noteq> [] then type_in else str_field t ''Type''))
          (setitem ''Description''
             (PStr (if description_in \<noteq> [] then description_in else str_field t ''Description'')) t))"

lemma edit_texts_well_formed:
  "well_formed t \<Longrightarrow> well_formed (edit_texts description_in type_in category_in t)"
  unfolding well_formed_def edit_texts_def
  by (simp add: has_str_setitem_other has_str_setitem_same has_amount_setitem_other)

lemma edit_texts_fields:
  "str_field (edit_texts description_in type_in category_in t) ''Description'' =
     (if description_in = [] then str_field t ''Description'' else description_in)"
  "str_field (edit_texts description_in type_in category_in t) ''Type'' =
     (if type_in = [] then str_field t ''Type'' else type_in)"
  "str_field (edit_texts description_in type_in category_in t) ''Category'' =
     (if category_in = [] then str_field t ''Category'' else category_in)"
  "str_field (edit_texts description_in type_in category_in t) ''Date'' = str_field t ''Date''"
  "amount_field (edit_texts description_in type_in category_in t) = amount_field t"
  unfolding edit_texts_def
  by (simp_all add: str_field_setitem_other str_field_setitem_same amount_field_setitem_other)

lemma edit_record_texts:
  assumes "well_formed t"
  shows "edit_record rt description_in type_in category_in amount_in t =
     (if amount_in \<noteq> [] then
        (case py_float rt amount_in of
           None \<Rightarrow> (Updated True, edit_texts description_in type_in category_in t)
         | Some x \<Rightarrow>
             (Updated False,
              setitem ''Amount'' (PFloat x) (edit_texts description_in type_in category_in t)))
      else (Updated False, edit_texts description_in type_in category_in t))"
proof -
  from assms have d: "has_str t ''Description''" and ty: "has_str t ''Type''"
    and c: "has_str t ''Category''" and a: "has_amount t"
    by (simp_all add: well_formed_def)
  let ?t1 = "setitem ''Description''
       (PStr (if description_in \<noteq> [] then description_in else str_field t ''Description'')) t"
  let ?t2 = "setitem ''Type'' (PStr (if type_in \<noteq> [] then type_in else str_field t ''Type'')) ?t1"
  let ?t3 = "edit_texts description_in type_in category_in t"
  have r1: "replace_text ''Description'' description_in t = Inr ?t1"
    using d by (rule replace_text_has_str)
  have "has_str ?t1 ''Type''" using ty by (simp add: has_str_setitem_other)
  then have "replace_text ''Type'' type_in ?t1 =
      Inr (setitem ''Type'' (PStr (if type_in \<noteq> [] then type_in else str_field ?t1 ''Type'')) ?t1)"
    by (rule replace_text_has_str)
  then have r2: "replace_text ''Type'' type_in ?t1 = Inr ?t2"
    by (simp add: str_field_setitem_other)
  have "has_str ?t2 ''Category''" using c by (simp add: has_str_setitem_other)
  then have "replace_text ''Category'' category_in ?t2 =
      Inr (setitem ''Category''
             (PStr (if category_in \<noteq> [] then category_in else str_field ?t2 ''Category'')) ?t2)"
    by (rule replace_text_has_str)
  then have r3: "replace_text ''Category'' category_in ?t2 = Inr ?t3"
    by (simp add: str_field_setitem_other edit_texts_def)
  have "has_amount ?t3" using a
    by (simp add: edit_texts_def has_amount_setitem_other)
  then obtain old where g: "getitem ?t3 ''Amount'' = Inr old"
    by (auto simp: has_amount_def getitem_def split: option.splits)
  show ?thesis
    unfolding edit_record_def
    by (simp add: r1 r2 r3 g float_of_def split: option.splits)
qed

lemma edit_record_well_formed:
  fixes t :: "('n::zero) pydict"
  assumes "well_formed t"
  shows "\<exists>t'. edit_record rt description_in type_in category_in amount_in t =
            (Updated (amount_in \<noteq> [] \<and> py_float rt amount_in = None), t') \<and>
          edited rt description_in type_in category_in amount_in t t'"
proof -
  note w = edit_texts_well_formed [OF assms, of description_in type_in category_in]
  have w': "well_formed (setitem ''Amount'' (PFloat x) (edit_texts description_in type_in category_in t))"
    for x :: 'n
    using w by (simp add: well_formed_def has_str_setitem_other has_amount_setitem_same)
  show ?thesis
  proof (cases "amount_in = []")
    case True
    then show ?thesis
      using w by (simp add: edit_record_texts [OF assms] edited_def edit_texts_fields)
  next
    case False
    show ?thesis
    proof (cases "py_float rt amount_in")
      case None
      with False show ?thesis
        using w by (simp add: edit_record_texts [OF assms] edited_def edit_texts_fields)
    next
      case (Some x)
      with False show ?thesis
        using w' [of x]
        by (simp add: edit_record_texts [OF assms] edited_def edit_texts_fields
            str_field_setitem_other amount_field_setitem_same)
    qed
  qed
qed

text \<open>
  On a list of well-formed records \<^verbatim>\<open>update_transaction\<close> keeps the contract of the data
  model, when a blank answer is read as the empty answer.
  A position that is no number, or a number outside \<open>1 .. length\<close>, is reported and the
  list is left as it was. Otherwise the record at that position is edited (\<open>edited\<close>):
  an empty answer for \<open>Description\<close>, \<open>Type\<close> or \<open>Category\<close> keeps the old value and a
  non-empty one replaces it; an empty answer for the amount keeps the old \<open>Amount\<close>; an
  answer that \<^verbatim>\<open>float\<close> rejects keeps the old \<open>Amount\<close> and the warning is printed (the
  flag of \<open>Updated\<close>); an answer that parses replaces it. A blank answer is the empty
  string, as in the prompts of the program ("leave blank for today").
\<close>

theorem update_transaction_contract:
  fixes transactions :: "('n::zero) pydict list"
  assumes "list_all well_formed transactions"
  shows "(case py_int rt number_in of
            None \<Rightarrow>
              update_transaction rt number_in description_in type_in category_in amount_in transactions =
                (if transactions = [] then NoTransactions else InvalidInput, transactions)
          | Some n \<Rightarrow>
              if 1 \<le> n \<and> n \<le> int (length transactions) then
                (\<exists>t'. update_transaction rt number_in description_in type_in category_in amount_in
                         transactions =
                       (Updated (amount_in \<noteq> [] \<and> py_float rt amount_in = None),
                        transactions[nat (n - 1) := t']) \<and>
                     edited rt description_in type_in category_in amount_in
                       (transactions ! nat (n - 1)) t')
              else
                update_transaction rt number_in description_in type_in category_in amount_in transactions =
                  (if transactions = [] then NoTransactions else InvalidNumber, transactions))"
proof (cases "py_int rt number_in")
  case None
  then show ?thesis
    using assms by (simp add: update_transaction_def show_transactions_well_formed)
next
  case (Some n)
  show ?thesis
  proof (cases "1 \<le> n \<and> n \<le> int (length transactions)")
    case False
    then show ?thesis
      using assms Some by (auto simp: update_transaction_def show_transactions_well_formed)
  next
    case True
    then have i: "nat (n - 1) < length transactions" and ne: "transactions \<noteq> []" by auto
    from assms i have "well_formed (transactions ! nat (n - 1))"
      by (simp add: list_all_length)
    from edit_record_well_formed [OF this, of rt description_in type_in category_in amount_in]
    obtain t' where
      e: "edit_record rt description_in type_in category_in amount_in (transactions ! nat (n - 1)) =
            (Updated (amount_in \<noteq> [] \<and> py_float rt amount_in = None), t')"
      and d: "edited rt description_in type_in category_in amount_in (transactions ! nat (n - 1)) t'"
      by blast
    have "update_transaction rt number_in description_in type_in category_in amount_in transactions =
            (Updated (amount_in \<noteq> [] \<and> py_float rt amount_in = None), transactions[nat (n - 1) := t'])"
      using assms Some True ne e
      by (simp add: update_transaction_def show_transactions_well_formed)
    with d Some True show ?thesis by auto
  qed
qed

theorem update_transaction_contract_witness:
  "list_all well_formed
     [[(Some ''Date'', PStr ''2024-01-05''), (Some ''Description'', PStr ''Tea''),
       (Some ''Type'', PStr ''Expense''), (Some ''Category'', PStr ''Food''),
       (Some ''Amount'', PFloat (100::int))],
      [(Some ''Date'', PStr ''2024-02-01''), (Some ''Description'', PStr ''Flat''),
       (Some ''Type'', PStr ''Expense''), (Some ''Category'', PStr ''N/A''),
       (Some ''Amount'', PFloat 100)]] \<and>
   (\<exists>t'. update_transaction sample_runtime ''2'' [] ''Income'' [] ''abc''
           [[(Some ''Date'', PStr ''2024-01-05''), (Some ''Description'', PStr ''Tea''),
             (Some ''Type'', PStr ''Expense''), (Some ''Category'', PStr ''Food''),
             (Some ''Amount'', PFloat 100)],
            [(Some ''Date'', PStr ''2024-02-01''), (Some ''Description'', PStr ''Flat''),
             (Some ''Type'', PStr ''Expense''), (Some ''Category'', PStr ''N/A''),
             (Some ''Amount'', PFloat 100)]] =
          (Updated True,
           [[(Some ''Date'', PStr ''2024-01-05''), (Some ''Description'', PStr ''Tea''),
             (Some ''Type'', PStr ''Expense''), (Some ''Category'', PStr ''Food''),
             (Some ''Amount'', PFloat 100)], t']) \<and>
        str_field t' ''Description'' = ''Flat'' \<and> str_field t' ''Type'' = ''Income'' \<and>
        str_field t' ''Category'' = ''N/A'' \<and> amount_field t' = 100 \<and>
        str_field t' ''Date'' = ''2024-02-01'')"
proof -
  let ?ts = "[[(Some ''Date'', PStr ''2024-01-05''), (Some ''Description'', PStr ''Tea''),
       (Some ''Type'', PStr ''Expense''), (Some ''Category'', PStr ''Food''),
       (Some ''Amount'', PFloat (100::int))],
      [(Some ''Date'', PStr ''2024-02-01''), (Some ''Description'', PStr ''Flat''),
       (Some ''Type'', PStr ''Expense''), (Some ''Category'', PStr ''N/A''),
       (Some ''Amount'', PFloat 100)]]"
  have w: "list_all well_formed ?ts"
    by (simp add: well_formed_def has_str_def has_amount_def)
  have p: "py_int sample_runtime ''2'' = Some 2" "py_float sample_runtime ''abc'' = None"
    by (simp_all add: sample_runtime_def)
  from update_transaction_contract [OF w, of sample_runtime "''2''" "[]" "''Income''" "[]" "''abc''"]
  obtain t' where
    u: "update_transaction sample_runtime ''2'' [] ''Income'' [] ''abc'' ?ts =
          (Updated True, ?ts[nat (2 - 1) := t'])"
    and e: "edited sample_runtime [] ''Income'' [] ''abc'' (?ts ! nat (2 - 1)) t'"
    by (auto simp: p)
  from e have "str_field t' ''Description'' = ''Flat'' \<and> str_field t' ''Type'' = ''Income'' \<and>
        str_field t' ''Category'' = ''N/A'' \<and> amount_field t' = 100 \<and>
        str_field t' ''Date'' = ''2024-02-01''"
    by (simp add: edited_def p str_field_def amount_field_def)
  with u w show ?thesis by auto
qed

section \<open>A file with the right header is left alone\<close>

text \<open>The first line of a text, without its line ending.\<close>

definition first_line :: "string \<Rightarrow> string" where
  "first_line s = takeWhile (\<lambda>c. \<not> is_newline c) s"

lemma readline_first_line:
  "fst (readline s) \<in>
     {first_line s, first_line s @ [CHR 0x0A], first_line s @ [CHR 0x0D],
      first_line s @ [CHR 0x0D, CHR 0x0A]}"
proof (induction s)
  case Nil
  show ?case by (simp add: first_line_def)
next
  case (Cons c cs)
  show ?case
  proof (cases "c = CHR 0x0A")
    case True
    then show ?thesis by (simp add: first_line_def is_newline_def)
  next
    case lf: False
    show ?thesis
    proof (cases "c = CHR 0x0D")
      case True
      then show ?thesis
        by (cases cs) (simp_all add: first_line_def is_newline_def)
    next
      case False
      with lf have n: "\<not> is_newline c" by (simp add: is_newline_def)
      obtain l r where lr: "readline cs = (l, r)" by (cases "readline cs")
      from n have f: "first_line (c # cs) = c # first_line cs" by (simp add: first_line_def)
      from lf False lr have "fst (readline (c # cs)) = c # fst (readline cs)" by simp
      with Cons f show ?thesis by auto
    qed
  qed
qed

lemma strip_header_line:
  assumes "e \<in> {[], [CHR 0x0A], [CHR 0x0D], [CHR 0x0D, CHR 0x0A]}"
  shows "py_strip (''Date,Description,Type,Category,Amount'' @ e) =
         ''Date,Description,Type,Category,Amount''"
proof -
  have "py_strip (''Date,Description,Type,Category,Amount'' @ []) =
        ''Date,Description,Type,Category,Amount''"
    by code_simp
  moreover have "py_strip (''Date,Description,Type,Category,Amount'' @ [CHR 0x0A]) =
        ''Date,Description,Type,Category,Amount''"
    by code_simp
  moreover have "py_strip (''Date,Description,Type,Category,Amount'' @ [CHR 0x0D]) =
        ''Date,Description,Type,Category,Amount''"
    by code_simp
  moreover have "py_strip (''Date,Description,Type,Category,Amount'' @ [CHR 0x0D, CHR 0x0A]) =
        ''Date,Description,Type,Category,Amount''"
    by code_simp
  ultimately show ?thesis using assms by blast
qed

lemma join_FIELDNAMES: "py_join '','' FIELDNAMES = ''Date,Description,Type,Category,Amount''"
  by (simp add: FIELDNAMES_def)

lemma ensure_csv_file_header_ok:
  assumes "first_line s = ''Date,Description,Type,Category,Amount''"
  shows "ensure_csv_file rt (Some s) = (None, Some s)"
proof -
  from readline_first_line [of s] assms
  obtain e where e: "e \<in> {[], [CHR 0x0A], [CHR 0x0D], [CHR 0x0D, CHR 0x0A]}"
    and r: "fst (readline s) = ''Date,Description,Type,Category,Amount'' @ e"
    by auto
  from strip_header_line [OF e] r
  have "py_strip (fst (readline s)) = py_join '','' FIELDNAMES"
    by (simp add: join_FIELDNAMES)
  then show ?thesis by (simp add: ensure_csv_file_def)
qed

text \<open>
  Claim C9. When the first line of the file is the comma-joined field list,
  \<^verbatim>\<open>ensure_csv_file\<close> raises nothing and leaves the file with the very same contents; a
  second run on the result does the same.
\<close>

theorem ensure_csv_file_noop:
  assumes "first_line s = ''Date,Description,Type,Category,Amount''"
  shows "ensure_csv_file rt (Some s) = (None, Some s) \<and>
         ensure_csv_file rt (snd (ensure_csv_file rt (Some s))) = (None, Some s)"
  by (simp add: ensure_csv_file_header_ok [OF assms])

theorem ensure_csv_file_noop_witness:
  "first_line (''Date,Description,Type,Category,Amount'' @ [CHR 0x0D, CHR 0x0A] @
               ''2024-01-05,Tea,Expense,Food,12'' @ [CHR 0x0D, CHR 0x0A]) =
     ''Date,Description,Type,Category,Amount'' \<and>
   ensure_csv_file sample_runtime
     (Some (''Date,Description,Type,Category,Amount'' @ [CHR 0x0D, CHR 0x0A] @
            ''2024-01-05,Tea,Expense,Food,12'' @ [CHR 0x0D, CHR 0x0A])) =
     (None, Some (''Date,Description,Type,Category,Amount'' @ [CHR 0x0D, CHR 0x0A] @
                  ''2024-01-05,Tea,Expense,Food,12'' @ [CHR 0x0D, CHR 0x0A]))"
proof -
  have h: "first_line (''Date,Description,Type,Category,Amount'' @ [CHR 0x0D, CHR 0x0A] @
               ''2024-01-05,Tea,Expense,Food,12'' @ [CHR 0x0D, CHR 0x0A]) =
     ''Date,Description,Type,Category,Amount''"
    by (simp add: first_line_def is_newline_def)
  from ensure_csv_file_noop [OF h, of sample_runtime] h show ?thesis by blast
qed

section \<open>The monthly summary\<close>

text \<open>
  The vocabulary of the claim: a record is an expense when its lower-cased \<open>Type\<close> is
  \<^verbatim>\<open>expense\<close>; its key is the first seven characters of \<open>Date\<close>, the text \<^verbatim>\<open> - \<close> and the
  \<open>Category\<close>; \<open>first_occurrences\<close> keeps of every element of a list its first occurrence.
\<close>

definition is_expense :: "'n pydict \<Rightarrow> bool" where
  "is_expense t = (py_lower (str_field t ''Type'') = ''expense'')"

definition month_key :: "'n pydict \<Rightarrow> string" where
  "month_key t = py_prefix 7 (str_field t ''Date'') @ '' - '' @ str_field t ''Category''"

fun first_occurrences :: "'a list \<Rightarrow> 'a list" where
  "first_occurrences [] = []"
| "first_occurrences (x # xs) = x # first_occurrences (removeAll x xs)"

definition key_total :: "('k \<times> ('n::{zero,plus})) list \<Rightarrow> 'k \<Rightarrow> 'n" where
  "key_total es k = foldl (+) 0 (map snd (filter (\<lambda>e. fst e = k) es))"

definition add_entries ::
  "(string \<times> ('n::{zero,plus})) list \<Rightarrow> (string \<times> 'n) list \<Rightarrow> (string \<times> 'n) list" where
  "add_entries m es = foldl (\<lambda>m e. monthly_add (fst e) (snd e) m) m es"

definition get0 :: "('k \<times> ('n::zero)) list \<Rightarrow> 'k \<Rightarrow> 'n" where
  "get0 m k = (case map_of m k of None \<Rightarrow> 0 | Some v \<Rightarrow> v)"

lemma add_entries_Nil: "add_entries m [] = m"
  by (simp add: add_entries_def)

lemma add_entries_Cons: "add_entries m (e # es) = add_entries (monthly_add (fst e) (snd e) m) es"
  by (simp add: add_entries_def)

lemma set_first_occurrences: "set (first_occurrences xs) = set xs"
proof (induction xs rule: first_occurrences.induct)
  case 1
  show ?case by simp
next
  case (2 x xs)
  then show ?case by auto
qed

lemma monthly_add_keys:
  "map fst (monthly_add k x m) = (if k \<in> set (map fst m) then map fst m else map fst m @ [k])"
  by (simp add: monthly_add_def update_keys)

lemma monthly_add_lookup:
  "map_of (monthly_add k x m) k' = (if k' = k then Some (get0 m k + x) else map_of m k')"
  by (simp add: monthly_add_def update_conv' get0_def)

lemma get0_monthly_add: "get0 (monthly_add k x m) k' = (if k' = k then get0 m k + x else get0 m k')"
  by (simp add: get0_def monthly_add_lookup)

lemma add_entries_keys:
  "map fst (add_entries m es) =
     map fst m @ first_occurrences (filter (\<lambda>k. k \<notin> set (map fst m)) (map fst es))"
proof (induction es arbitrary: m)
  case Nil
  show ?case by (simp add: add_entries_Nil)
next
  case (Cons e es)
  let ?m = "monthly_add (fst e) (snd e) m"
  have ih: "map fst (add_entries ?m es) =
      map fst ?m @ first_occurrences (filter (\<lambda>k. k \<notin> set (map fst ?m)) (map fst es))"
    by (rule Cons.IH)
  show ?case
  proof (cases "fst e \<in> set (map fst m)")
    case True
    then have "map fst ?m = map fst m" by (simp add: monthly_add_keys)
    with ih True show ?thesis by (simp add: add_entries_Cons)
  next
    case False
    then have k: "map fst ?m = map fst m @ [fst e]" by (simp add: monthly_add_keys)
    have f: "filter (\<lambda>k. k \<notin> set (map fst m @ [fst e])) ks =
          removeAll (fst e) (filter (\<lambda>k. k \<notin> set (map fst m)) ks)" for ks
      by (induction ks) auto
    have "map fst (add_entries m (e # es)) =
          (map fst m @ [fst e]) @
          first_occurrences (removeAll (fst e) (filter (\<lambda>k. k \<notin> set (map fst m)) (map fst es)))"
      using ih unfolding k f by (simp add: add_entries_Cons)
    also have "\<dots> = map fst m @
          first_occurrences (filter (\<lambda>k. k \<notin> set (map fst m)) (map fst (e # es)))"
      using False by simp
    finally show ?thesis .
  qed
qed

text \<open>
  The total of a key is built from left to right, as the loop builds it; no law of the
  addition is used.
\<close>

lemma add_entries_get0:
  fixes m :: "(string \<times> ('n::{zero,plus})) list"
  shows "get0 (add_entries m es) k =
         foldl (+) (get0 m k) (map snd (filter (\<lambda>e. fst e = k) es))"
proof (induction es arbitrary: m)
  case Nil
  show ?case by (simp add: add_entries_Nil)
next
  case (Cons e es)
  show ?case
  proof (cases "fst e = k")
    case True
    then show ?thesis by (simp add: add_entries_Cons Cons.IH get0_monthly_add)
  next
    case False
    then have "k \<noteq> fst e" by auto
    with False show ?thesis by (simp add: add_entries_Cons Cons.IH get0_monthly_add)
  qed
qed

lemma add_entries_distinct: "distinct (map fst m) \<Longrightarrow> distinct (map fst (add_entries m es))"
proof (induction es arbitrary: m)
  case Nil
  then show ?case by (simp add: add_entries_Nil)
next
  case (Cons e es)
  from Cons.prems have "distinct (map fst (monthly_add (fst e) (snd e) m))"
    by (simp add: monthly_add_keys)
  then show ?case by (simp add: add_entries_Cons Cons.IH)
qed

lemma alist_by_keys:
  "distinct (map fst r) \<Longrightarrow> r = map (\<lambda>k. (k, get0 r k)) (map fst r)"
proof (induction r)
  case Nil
  show ?case by simp
next
  case (Cons p r)
  obtain k v where p: "p = (k, v)" by (cases p)
  from Cons.prems p have k: "k \<notin> fst ` set r" and d: "distinct (map fst r)" by auto
  have "map (\<lambda>k'. (k', get0 ((k, v) # r) k')) (map fst r) = map (\<lambda>k'. (k', get0 r k')) (map fst r)"
    using k by (intro map_cong) (auto simp: get0_def)
  with Cons.IH [OF d] p show ?case by (simp add: get0_def)
qed

lemma add_entries_empty:
  fixes es :: "(string \<times> ('n::{zero,plus})) list"
  shows "add_entries [] es = map (\<lambda>k. (k, key_total es k)) (first_occurrences (map fst es))"
proof -
  have d: "distinct (map fst (add_entries [] es))"
    by (rule add_entries_distinct) simp
  have k: "map fst (add_entries [] es) = first_occurrences (map fst es)"
    by (simp add: add_entries_keys)
  have g: "get0 (add_entries [] es) k = key_total es k" for k
    using add_entries_get0 [of "[]" es k] by (simp add: get0_def key_total_def)
  from alist_by_keys [OF d] show ?thesis by (simp add: k g)
qed

definition entry :: "('n::zero) pydict \<Rightarrow> string \<times> 'n" where
  "entry t = (month_key t, amount_field t)"

text \<open>
  What the loop reads: the \<open>Type\<close> of every record, and the \<open>Category\<close>, \<open>Date\<close> and
  \<open>Amount\<close> of the expenses only.
\<close>

definition expense_fields :: "'n pydict \<Rightarrow> bool" where
  "expense_fields t = (has_str t ''Category'' \<and> has_str t ''Date'' \<and> has_amount t)"

lemma monthly_loop_entries:
  fixes ts :: "('n::{zero,plus}) pydict list"
  assumes "list_all (\<lambda>t. has_str t ''Type'' \<and> (is_expense t \<longrightarrow> expense_fields t)) ts"
  shows "monthly_loop rt m ts = Inr (add_entries m (map entry (filter is_expense ts)))"
  using assms
proof (induction ts arbitrary: m)
  case Nil
  show ?case by (simp add: add_entries_Nil)
next
  case (Cons t ts)
  then have ty: "has_str t ''Type''" and ex: "is_expense t \<longrightarrow> expense_fields t"
    and r: "list_all (\<lambda>t. has_str t ''Type'' \<and> (is_expense t \<longrightarrow> expense_fields t)) ts"
    by simp_all
  from ty have g0: "getitem t ''Type'' = Inr (PStr (str_field t ''Type''))"
    by (rule has_str_getitem)
  show ?case
  proof (cases "is_expense t")
    case True
    with ex have "expense_fields t" by simp
    then have g: "getitem t ''Category'' = Inr (PStr (str_field t ''Category''))"
      "getitem t ''Date'' = Inr (PStr (str_field t ''Date''))"
      "getitem t ''Amount'' = Inr (PFloat (amount_field t))"
      by (simp_all add: expense_fields_def has_str_getitem has_amount_getitem)
    from True have "py_lower (str_field t ''Type'') = ''expense''" by (simp add: is_expense_def)
    with True show ?thesis
      by (simp add: g0 g slice7_def format_plain_def Cons.IH [OF r] add_entries_Cons entry_def
          month_key_def)
  next
    case False
    then have "py_lower (str_field t ''Type'') \<noteq> ''expense''" by (simp add: is_expense_def)
    with False show ?thesis
      by (simp add: g0 Cons.IH [OF r])
  qed
qed

lemma entries_of_key:
  "map snd (filter (\<lambda>e. fst e = k) (map entry ts)) =
   map amount_field (filter (\<lambda>t. month_key t = k) ts)"
  by (induction ts) (simp_all add: entry_def)

lemma key_total_entries:
  fixes ts :: "('n::{zero,plus}) pydict list"
  shows "key_total (map entry ts) k =
         foldl (+) 0 (map amount_field (filter (\<lambda>t. month_key t = k) ts))"
  by (simp add: key_total_def entries_of_key)

text \<open>
  Claim C3. Let every record have a \<open>Type\<close> string, and let every record whose lower-cased
  \<open>Type\<close> is \<^verbatim>\<open>expense\<close> have a \<open>Date\<close> string, a \<open>Category\<close> string and a numeric \<open>Amount\<close>;
  nothing is asked of the other fields of the other records (an income made by
  \<^verbatim>\<open>add_income\<close> has no \<open>Category\<close>). Then \<^verbatim>\<open>calculate_monthly_expenses\<close> builds the mapping
  whose keys are the keys of the expense records, in the order of their first occurrence:
  the key of a record is the first seven characters of its \<open>Date\<close>, the text \<^verbatim>\<open> - \<close> and its
  \<open>Category\<close>. The value of a key is the total of the amounts of the expense records of
  that key, added from 0 in the order of the sequence. A record whose \<open>Type\<close> is neither
  income nor expense is left out, as an income is. Nothing is assumed of the addition:
  the amounts are in any type with 0 and +, so the statement holds for floating-point
  amounts, whose addition is not associative.
\<close>

theorem calculate_monthly_expenses_groups:
  fixes transactions :: "('n::{zero,plus}) pydict list"
  assumes "list_all (\<lambda>t. has_str t ''Type'' \<and> (is_expense t \<longrightarrow> expense_fields t)) transactions"
  shows "calculate_monthly_expenses rt transactions =
     Inr (map (\<lambda>k. (k, foldl (+) 0
                         (map amount_field
                            (filter (\<lambda>t. is_expense t \<and> month_key t = k) transactions))))
            (first_occurrences (map month_key (filter is_expense transactions))))"
proof -
  have f: "filter (\<lambda>t. month_key t = k) (filter is_expense transactions) =
           filter (\<lambda>t. is_expense t \<and> month_key t = k) transactions" for k
    by (simp add: conj_commute)
  have a: "calculate_monthly_expenses rt transactions =
        Inr (map (\<lambda>k. (k, key_total (map entry (filter is_expense transactions)) k))
               (first_occurrences (map fst (map entry (filter is_expense transactions)))))"
    by (simp add: calculate_monthly_expenses_def monthly_loop_entries [OF assms] add_entries_empty
        del: map_map)
  have b: "map fst (map entry (filter is_expense transactions)) =
        map month_key (filter is_expense transactions)"
    by (simp add: entry_def)
  have c: "key_total (map entry (filter is_expense transactions)) k =
        foldl (+) 0 (map amount_field
                       (filter (\<lambda>t. is_expense t \<and> month_key t = k) transactions))" for k
    by (simp add: key_total_entries f)
  show ?thesis unfolding a b c ..
qed

text \<open>
  An example: two expenses of January for the rent and one for food, a transfer, an income
  without \<open>Category\<close>, and an expense whose date has a character of three bytes among its
  first seven (U+5E74, the sign for "year"): its key keeps the seven characters.
\<close>

theorem calculate_monthly_expenses_groups_witness:
  "list_all (\<lambda>t. has_str t ''Type'' \<and> (is_expense t \<longrightarrow> expense_fields t))
     [[(Some ''Date'', PStr ''2024-01-05''), (Some ''Description'', PStr ''Flat''),
       (Some ''Type'', PStr ''Expense''), (Some ''Category'', PStr ''Rent''),
       (Some ''Amount'', PFloat (500::int))],
      [(Some ''Date'', PStr ''2024-01-09''), (Some ''Description'', PStr ''Tea''),
       (Some ''Type'', PStr ''EXPENSE''), (Some ''Category'', PStr ''Food''),
       (Some ''Amount'', PFloat 30)],
      [(Some ''Date'', PStr ''2024-01-12''), (Some ''Description'', PStr ''Move''),
       (Some ''Type'', PStr ''Transfer''), (Some ''Category'', PStr ''Rent''),
       (Some ''Amount'', PFloat 10)],
      [(Some ''Date'', PStr ''2024-01-15''), (Some ''Description'', PStr ''Pay''),
       (Some ''Type'', PStr ''Income''), (Some ''Amount'', PFloat 900)],
      [(Some ''Date'', PStr ''2024-01-20''), (Some ''Description'', PStr ''Flat''),
       (Some ''Type'', PStr ''expense''), (Some ''Category'', PStr ''Rent''),
       (Some ''Amount'', PFloat 200)],
      [(Some ''Date'', PStr (''2024'' @ [CHR 0xE5, CHR 0xB9, CHR 0xB4] @ ''02-01'')),
       (Some ''Description'', PStr ''Flat''),
       (Some ''Type'', PStr ''expense''), (Some ''Category'', PStr ''Rent''),
       (Some ''Amount'', PFloat 7)]] \<and>
   calculate_monthly_expenses sample_runtime
     [[(Some ''Date'', PStr ''2024-01-05''), (Some ''Description'', PStr ''Flat''),
       (Some ''Type'', PStr ''Expense''), (Some ''Category'', PStr ''Rent''),
       (Some ''Amount'', PFloat 500)],
      [(Some ''Date'', PStr ''2024-01-09''), (Some ''Description'', PStr ''Tea''),
       (Some ''Type'', PStr ''EXPENSE''), (Some ''Category'', PStr ''Food''),
       (Some ''Amount'', PFloat 30)],
      [(Some ''Date'', PStr ''2024-01-12''), (Some ''Description'', PStr ''Move''),
       (Some ''Type'', PStr ''Transfer''), (Some ''Category'', PStr ''Rent''),
       (Some ''Amount'', PFloat 10)],
      [(Some ''Date'', PStr ''2024-01-15''), (Some ''Description'', PStr ''Pay''),
       (Some ''Type'', PStr ''Income''), (Some ''Amount'', PFloat 900)],
      [(Some ''Date'', PStr ''2024-01-20''), (Some ''Description'', PStr ''Flat''),
       (Some ''Type'', PStr ''expense''), (Some ''Category'', PStr ''Rent''),
       (Some ''Amount'', PFloat 200)],
      [(Some ''Date'', PStr (''2024'' @ [CHR 0xE5, CHR 0xB9, CHR 0xB4] @ ''02-01'')),
       (Some ''Description'', PStr ''Flat''),
       (Some ''Type'', PStr ''expense''), (Some ''Category'', PStr ''Rent''),
       (Some ''Amount'', PFloat 7)]] =
   Inr [(''2024-01 - Rent'', 700), (''2024-01 - Food'', 30),
        (''2024'' @ [CHR 0xE5, CHR 0xB9, CHR 0xB4] @ ''02 - Rent'', 7)]"
proof -
  let ?R = "[[(Some ''Date'', PStr ''2024-01-05''), (Some ''Description'', PStr ''Flat''),
       (Some ''Type'', PStr ''Expense''), (Some ''Category'', PStr ''Rent''),
       (Some ''Amount'', PFloat (500::int))],
      [(Some ''Date'', PStr ''2024-01-09''), (Some ''Description'', PStr ''Tea''),
       (Some ''Type'', PStr ''EXPENSE''), (Some ''Category'', PStr ''Food''),
       (Some ''Amount'', PFloat 30)],
      [(Some ''Date'', PStr ''2024-01-12''), (Some ''Description'', PStr ''Move''),
       (Some ''Type'', PStr ''Transfer''), (Some ''Category'', PStr ''Rent''),
       (Some ''Amount'', PFloat 10)],
      [(Some ''Date'', PStr ''2024-01-15''), (Some ''Description'', PStr ''Pay''),
       (Some ''Type'', PStr ''Income''), (Some ''Amount'', PFloat 900)],
      [(Some ''Date'', PStr ''2024-01-20''), (Some ''Description'', PStr ''Flat''),
       (Some ''Type'', PStr ''expense''), (Some ''Category'', PStr ''Rent''),
       (Some ''Amount'', PFloat 200)],
      [(Some ''Date'', PStr (''2024'' @ [CHR 0xE5, CHR 0xB9, CHR 0xB4] @ ''02-01'')),
       (Some ''Description'', PStr ''Flat''),
       (Some ''Type'', PStr ''expense''), (Some ''Category'', PStr ''Rent''),
       (Some ''Amount'', PFloat 7)]]"
  have h: "list_all (\<lambda>t. has_str t ''Type'' \<and> (is_expense t \<longrightarrow> expense_fields t)) ?R"
    by code_simp
  have "calculate_monthly_expenses sample_runtime ?R =
     Inr (map (\<lambda>k. (k, foldl (+) 0
                         (map amount_field
                            (filter (\<lambda>t. is_expense t \<and> month_key t = k) ?R))))
            (first_occurrences (map month_key (filter is_expense ?R))))"
    using h by (rule calculate_monthly_expenses_groups)
  also have "\<dots> = Inr [(''2024-01 - Rent'', 700), (''2024-01 - Food'', 30),
        (''2024'' @ [CHR 0xE5, CHR 0xB9, CHR 0xB4] @ ''02 - Rent'', 7)]"
    by code_simp
  finally show ?thesis using h by (rule conjI [rotated])
qed

section \<open>Reading back what the writer wrote\<close>

text \<open>
  The reader is followed character by character over the text of a file: \<open>reader_text\<close> is
  the reader on the lines of a text, \<open>line_end\<close> says that a character ends its line.
\<close>

definition reader_text :: "reader \<Rightarrow> string \<Rightarrow> string list list \<times> py_error option" where
  "reader_text p s = csv_reader p (file_lines s)"


lemma file_lines_Nil: "file_lines [] = []"
  by (simp add: file_lines.simps)




lemma reader_text_Nil:
  "reader_text p [] =
     (if rd_field p \<noteq> [] \<or> rd_state p = IN_QUOTED_FIELD then ([rd_fields (parse_save_field p)], None)
      else ([], None))"
  by (simp add: reader_text_def file_lines_Nil)



subsection \<open>One field\<close>


















subsection \<open>One row and a sequence of rows\<close>




lemma py_join_Cons2: "py_join '','' (x # y # ys) = x @ CHR '','' # py_join '','' (y # ys)"
  by simp







section \<open>Saving and loading\<close>



















section \<open>Where the program leaves its specification\<close>

subsection \<open>Updating after an income was added\<close>

lemma first_error_well_formed:
  "list_all well_formed ts \<Longrightarrow> first_error (map show_row ts @ es) = first_error es"
  by (induction ts) (simp_all add: show_row_well_formed)

lemma show_row_without_category:
  "show_row [(Some ''Date'', PStr d), (Some ''Description'', PStr s),
             (Some ''Type'', PStr ''Income''), (Some ''Amount'', PFloat x)] = Some KeyError"
  by (simp add: show_row_def show_field_def getitem_def format_width_def)

text \<open>
  Claim C7. The contract of \<^verbatim>\<open>update_transaction\<close> fails on a list that the program itself
  builds. \<^verbatim>\<open>add_income\<close> appends a record without \<open>Category\<close>, and \<^verbatim>\<open>update_transaction\<close>
  lists the records before it asks for a position; the listing formats \<^verbatim>\<open>t['Category']\<close>
  of every record and raises \<^verbatim>\<open>KeyError\<close>. So after any successful \<^verbatim>\<open>add_income\<close> on
  well-formed records, every call of \<^verbatim>\<open>update_transaction\<close>, whatever the position and the
  answers typed in, ends with \<^verbatim>\<open>KeyError\<close>: a position out of range is not reported, and
  no field is edited.
\<close>

theorem update_transaction_after_add_income:
  fixes transactions :: "('n::zero) pydict list"
  assumes "list_all well_formed transactions"
    and "py_float rt income_in = Some x"
  shows "update_transaction rt number_in description_in type_in category_in amount_in
           (snd (add_income rt date_in description income_in transactions)) =
         (Raised KeyError, snd (add_income rt date_in description income_in transactions))"
proof -
  let ?t = "[(Some ''Date'', PStr (if date_in \<noteq> [] then date_in else today rt)),
             (Some ''Description'', PStr description),
             (Some ''Type'', PStr ''Income''), (Some ''Amount'', PFloat x)]"
  have a: "snd (add_income rt date_in description income_in transactions) = transactions @ [?t]"
    using assms(2) by (simp add: add_income_def float_of_def Let_def)
  have "first_error (map show_row transactions @ [show_row ?t]) = first_error [show_row ?t]"
    using assms(1) by (rule first_error_well_formed)
  then have "show_transactions (transactions @ [?t]) None = Some KeyError"
    by (simp add: show_transactions_def show_row_without_category)
  then show ?thesis
    unfolding a by (simp add: update_transaction_def)
qed

theorem update_transaction_after_add_income_witness:
  "list_all well_formed
     [[(Some ''Date'', PStr ''2024-01-05''), (Some ''Description'', PStr ''Tea''),
       (Some ''Type'', PStr ''Expense''), (Some ''Category'', PStr ''Food''),
       (Some ''Amount'', PFloat (12::int))]] \<and>
   py_float sample_runtime ''100.0'' = Some 100 \<and>
   update_transaction sample_runtime ''7'' [] [] [] []
     (snd (add_income sample_runtime [] ''Pay'' ''100.0''
        [[(Some ''Date'', PStr ''2024-01-05''), (Some ''Description'', PStr ''Tea''),
          (Some ''Type'', PStr ''Expense''), (Some ''Category'', PStr ''Food''),
          (Some ''Amount'', PFloat 12)]])) =
   (Raised KeyError,
    snd (add_income sample_runtime [] ''Pay'' ''100.0''
        [[(Some ''Date'', PStr ''2024-01-05''), (Some ''Description'', PStr ''Tea''),
          (Some ''Type'', PStr ''Expense''), (Some ''Category'', PStr ''Food''),
          (Some ''Amount'', PFloat 12)]]))"
proof -
  have h1: "list_all well_formed
     [[(Some ''Date'', PStr ''2024-01-05''), (Some ''Description'', PStr ''Tea''),
       (Some ''Type'', PStr ''Expense''), (Some ''Category'', PStr ''Food''),
       (Some ''Amount'', PFloat (12::int))]]"
    by (simp add: well_formed_def has_str_def has_amount_def)
  have h2: "py_float sample_runtime ''100.0'' = Some 100"
    by (simp add: sample_runtime_def)
  from h1 h2 update_transaction_after_add_income [OF h1 h2]
  show ?thesis by (intro conjI)
qed

text \<open>
  The same call on the list before the income was added reports the position: the
  defect is the missing field, not the position.
\<close>

lemma update_transaction_before_add_income:
  "update_transaction sample_runtime ''7'' [] [] [] []
     [[(Some ''Date'', PStr ''2024-01-05''), (Some ''Description'', PStr ''Tea''),
       (Some ''Type'', PStr ''Expense''), (Some ''Category'', PStr ''Food''),
       (Some ''Amount'', PFloat (12::int))]] =
   (InvalidInput,
    [[(Some ''Date'', PStr ''2024-01-05''), (Some ''Description'', PStr ''Tea''),
       (Some ''Type'', PStr ''Expense''), (Some ''Category'', PStr ''Food''),
       (Some ''Amount'', PFloat 12)]])"
  by code_simp

text \<open>
  An answer of one space is not empty, so \<^verbatim>\<open>input(...) or t[k]\<close> stores it: a blank
  answer that is not the empty answer overwrites the field.
\<close>

lemma update_transaction_space_answer:
  "update_transaction sample_runtime ''1'' '' '' [] [] []
     [[(Some ''Date'', PStr ''2024-01-05''), (Some ''Description'', PStr ''Tea''),
       (Some ''Type'', PStr ''Expense''), (Some ''Category'', PStr ''Food''),
       (Some ''Amount'', PFloat (12::int))]] =
   (Updated False,
    [[(Some ''Date'', PStr ''2024-01-05''), (Some ''Description'', PStr '' ''),
       (Some ''Type'', PStr ''Expense''), (Some ''Category'', PStr ''Food''),
       (Some ''Amount'', PFloat 12)]])"
  by code_simp

subsection \<open>Repairing a header\<close>

text \<open>
  Claim C5. The repair of a wrong header can raise. The rows are read inside
  \<^verbatim>\<open>try ... except Exception: pass\<close>, but they are written back outside of it, by a
  \<^verbatim>\<open>DictWriter\<close> that refuses a dictionary with a key that is no field name. A file whose
  header is \<^verbatim>\<open>date,amount\<close> gives rows with the keys \<^verbatim>\<open>date\<close> and \<^verbatim>\<open>amount\<close>:
  \<^verbatim>\<open>ensure_csv_file\<close> raises \<^verbatim>\<open>ValueError\<close>, and the file is left with the new header and
  none of its rows, for the file was opened for writing and the header was written
  before the first row was refused. \<^verbatim>\<open>load_transactions\<close> and \<^verbatim>\<open>save_transactions\<close> call
  \<^verbatim>\<open>ensure_csv_file\<close> outside of any handler and raise with it.
\<close>

theorem ensure_csv_file_repair_raises:
  "ensure_csv_file rt
     (Some (''date,amount'' @ [CHR 0x0A] @ ''2024-01-01,5'' @ [CHR 0x0A])) =
     (Some ValueError, Some (''Date,Description,Type,Category,Amount'' @ [CHR 0x0D, CHR 0x0A])) \<and>
   fst (load_transactions (rt :: ('n::{zero,equal}) runtime)
     (Some (''date,amount'' @ [CHR 0x0A] @ ''2024-01-01,5'' @ [CHR 0x0A]))) = Some ValueError \<and>
   fst (save_transactions rt
     (Some (''date,amount'' @ [CHR 0x0A] @ ''2024-01-01,5'' @ [CHR 0x0A])) []) = Some ValueError"
  by code_simp

subsection \<open>Loading a short row\<close>

text \<open>
  Claim C4. A row whose amount does not parse is not always skipped with the rest
  loaded. \<^verbatim>\<open>DictReader\<close> gives a row shorter than the header the value \<^verbatim>\<open>None\<close> for the
  missing cells, so \<^verbatim>\<open>row.get('Amount', 0)\<close> is \<^verbatim>\<open>None\<close> and \<^verbatim>\<open>float(None)\<close> raises
  \<^verbatim>\<open>TypeError\<close>, which \<^verbatim>\<open>except ValueError\<close> does not catch. The outer handler catches it
  and ends the loop: the rows after the short row are not loaded, though their amounts
  parse. Here the second row is a good row, and nothing is loaded; no row is reported as
  skipped, and the error reported is the \<^verbatim>\<open>TypeError\<close>.
\<close>

theorem load_transactions_stops_at_short_row:
  "load_transactions (rt :: ('n::{zero,equal}) runtime)
     (Some (''Date,Description,Type,Category,Amount'' @ [CHR 0x0A] @
            ''2024-01-01,Lunch,Expense,Food'' @ [CHR 0x0A] @
            ''2024-01-02,Pay,Income,Job,100'' @ [CHR 0x0A])) =
   (None,
    Some (''Date,Description,Type,Category,Amount'' @ [CHR 0x0A] @
          ''2024-01-01,Lunch,Expense,Food'' @ [CHR 0x0A] @
          ''2024-01-02,Pay,Income,Job,100'' @ [CHR 0x0A]),
    [], [], Some TypeError)"
  by code_simp

subsection \<open>Missing fields that are not filled\<close>

text \<open>
  Claim C6. A loaded record can hold \<^verbatim>\<open>None\<close> in place of a missing field. The header
  check strips the first line, so a header with a space after \<^verbatim>\<open>Amount\<close> is accepted as it
  is, and the last field name of the reader is \<^verbatim>\<open>'Amount '\<close>. A row with two cells then has
  no key \<^verbatim>\<open>'Amount'\<close>: \<^verbatim>\<open>row.get('Amount', 0)\<close> is 0 and the row is loaded. Its \<open>Type\<close> and
  \<open>Category\<close> are present with the value \<^verbatim>\<open>None\<close>, which \<^verbatim>\<open>setdefault\<close> leaves alone: they
  are not filled with \<^verbatim>\<open>'N/A'\<close>.
\<close>

theorem load_transactions_keeps_none:
  "load_transactions (rt :: ('n::{zero,equal}) runtime)
     (Some (''Date,Description,Type,Category,Amount '' @ [CHR 0x0A] @
            ''2024-01-01,Lunch'' @ [CHR 0x0A])) =
   (None,
    Some (''Date,Description,Type,Category,Amount '' @ [CHR 0x0A] @
          ''2024-01-01,Lunch'' @ [CHR 0x0A]),
    [[(Some ''Date'', PStr ''2024-01-01''), (Some ''Description'', PStr ''Lunch''),
      (Some ''Type'', PNone), (Some ''Category'', PNone), (Some ''Amount '', PNone),
      (Some ''Amount'', PFloat 0)]],
    [], None)"
  by code_simp

end
